theory Spec2Isabelle
  imports Main "HOL-Library.Char_ord" "HOL-Library.List_Lexorder" "HOL-Library.Sublist"
begin

section \<open>Python values and exceptions\<close>

text \<open>
  The evaluator of \<^verbatim>\<open>json_distance.py\<close> receives arbitrary Python objects
  (\<^verbatim>\<open>node: Any\<close>). The model covers the types named by the return annotation of
  \<^verbatim>\<open>_parse_json\<close> (\<^verbatim>\<open>Union[dict, list, None, float, bool, int, str]\<close>) and one
  constructor for any other object, which \<^verbatim>\<open>json.dumps\<close> cannot serialise.
  A \<^verbatim>\<open>str\<close> is a list of characters with code points below 256, compared by code
  point. A \<^verbatim>\<open>dict\<close> is the list of its items in insertion order, with string keys;
  a Python dict never holds a key twice, so the lists that stand for dicts have distinct
  keys. Floats are a type parameter \<open>'f\<close>: the model never computes with them.
\<close>

datatype 'f pyval =
    PNone
  | PBool bool
  | PInt int
  | PFloat 'f
  | PStr string
  | PList "'f pyval list"
  | PDict "(string \<times> 'f pyval) list"
  | PObject nat

text \<open>
  Exceptions are values: \<^verbatim>\<open>ImportError\<close> with its message, the \<^verbatim>\<open>TypeError\<close> of
  \<^verbatim>\<open>json.dumps\<close> on an object it cannot serialise, and whatever the injected
  callables (the markdown extractor, a custom distance or canonicalisation) raise.
\<close>

datatype error =
    ImportError string
  | TypeError
  | ExtractorError string
  | CallableError string

section \<open>The default canonicalisation: json.dumps with sorted keys and compact separators\<close>

text \<open>
  \<^verbatim>\<open>json.dumps(x, separators=(",", ":"), sort_keys=True)\<close> of the standard library,
  with its defaults \<^verbatim>\<open>ensure_ascii=True\<close> and \<^verbatim>\<open>allow_nan=True\<close>. The text of a
  float (\<^verbatim>\<open>float.__repr__\<close>, and \<^verbatim>\<open>NaN\<close>, \<^verbatim>\<open>Infinity\<close>, \<^verbatim>\<open>-Infinity\<close>) is the
  parameter \<open>fr\<close>.
\<close>

definition hex_digit :: "nat \<Rightarrow> char" where
  "hex_digit n = ''0123456789abcdef'' ! (n mod 16)"

fun nat_repr :: "nat \<Rightarrow> string" where
  "nat_repr n =
     (if n < 10 then [''0123456789'' ! n]
      else nat_repr (n div 10) @ [''0123456789'' ! (n mod 10)])"

declare nat_repr.simps [simp del]

definition int_repr :: "int \<Rightarrow> string" where
  "int_repr i = (if i < 0 then CHR ''-'' # nat_repr (nat (- i)) else nat_repr (nat i))"

text \<open>
  \<^verbatim>\<open>py_encode_basestring_ascii\<close>: backslash, double quote and the five short escapes,
  printable ASCII (space to tilde) unchanged, every other character as \<^verbatim>\<open>\u00xx\<close>.
\<close>

definition escape_char :: "char \<Rightarrow> string" where
  "escape_char c =
     (if c = CHR 0x5C then [CHR 0x5C, CHR 0x5C]
      else if c = CHR 0x22 then [CHR 0x5C, CHR 0x22]
      else if c = CHR 0x08 then [CHR 0x5C, CHR ''b'']
      else if c = CHR 0x0C then [CHR 0x5C, CHR ''f'']
      else if c = CHR 0x0A then [CHR 0x5C, CHR ''n'']
      else if c = CHR 0x0D then [CHR 0x5C, CHR ''r'']
      else if c = CHR 0x09 then [CHR 0x5C, CHR ''t'']
      else if CHR 0x20 \<le> c \<and> c \<le> CHR 0x7E then [c]
      else CHR 0x5C # ''u00'' @ [hex_digit (of_char c div 16), hex_digit (of_char c mod 16)])"

definition encode_basestring_ascii :: "string \<Rightarrow> string" where
  "encode_basestring_ascii s = CHR 0x22 # concat (map escape_char s) @ [CHR 0x22]"

fun join :: "string \<Rightarrow> string list \<Rightarrow> string" where
  "join sep [] = []"
| "join sep [s] = s"
| "join sep (s # t # ss) = s @ sep @ join sep (t # ss)"

text \<open>The first exception raised while the elements are rendered from left to right.\<close>

fun collect :: "('e + 'a) list \<Rightarrow> 'e + 'a list" where
  "collect [] = Inr []"
| "collect (Inl e # rs) = Inl e"
| "collect (Inr a # rs) = (case collect rs of Inl e \<Rightarrow> Inl e | Inr as \<Rightarrow> Inr (a # as))"

text \<open>
  With \<^verbatim>\<open>sort_keys=True\<close> the encoder renders \<^verbatim>\<open>sorted(dct.items())\<close>. The keys of
  a dict are pairwise different, so the order of the items is the order of their keys:
  \<open>sort_key fst\<close>.
\<close>

fun dumps :: "('f \<Rightarrow> string) \<Rightarrow> 'f pyval \<Rightarrow> error + string" where
  "dumps fr PNone = Inr ''null''"
| "dumps fr (PBool b) = Inr (if b then ''true'' else ''false'')"
| "dumps fr (PInt i) = Inr (int_repr i)"
| "dumps fr (PFloat x) = Inr (fr x)"
| "dumps fr (PStr s) = Inr (encode_basestring_ascii s)"
| "dumps fr (PList xs) =
     (case collect (map (dumps fr) xs) of
        Inl e \<Rightarrow> Inl e
      | Inr ss \<Rightarrow> Inr (''['' @ join '','' ss @ '']''))"
| "dumps fr (PDict kvs) =
     (case collect (map (\<lambda>(k, v). case dumps fr v of
                                     Inl e \<Rightarrow> Inl e
                                   | Inr s \<Rightarrow> Inr (encode_basestring_ascii k @ '':'' @ s))
                        (sort_key fst kvs)) of
        Inl e \<Rightarrow> Inl e
      | Inr ss \<Rightarrow> Inr (''{'' @ join '','' ss @ ''}''))"
| "dumps fr (PObject n) = Inl TypeError"

section \<open>The evaluator\<close>

text \<open>
  What the class takes from outside its file: the optional package \<^verbatim>\<open>rapidfuzz\<close>
  (\<open>None\<close> when \<^verbatim>\<open>from rapidfuzz import distance\<close> raises \<^verbatim>\<open>ImportError\<close>, otherwise its
  \<^verbatim>\<open>DamerauLevenshtein.normalized_distance\<close>), the extractor \<^verbatim>\<open>parse_json_markdown\<close> of
  \<^verbatim>\<open>langchain.output_parsers.json\<close>, and the text of a float. The result type \<open>'r\<close> of a
  distance function is a parameter: the evaluator never inspects a score.
\<close>

record ('f, 'r) env =
  rapidfuzz :: "(string \<Rightarrow> string \<Rightarrow> error + 'r) option"
  parse_json_markdown :: "string \<Rightarrow> error + 'f pyval"
  float_repr :: "'f \<Rightarrow> string"

text \<open>The attributes \<^verbatim>\<open>_string_distance\<close> and \<^verbatim>\<open>_canonicalize\<close> of an instance.\<close>

record ('f, 'r) evaluator =
  string_distance :: "string \<Rightarrow> string \<Rightarrow> error + 'r"
  canonicalize :: "'f pyval \<Rightarrow> error + string"

definition import_message :: string where
  "import_message =
     ''The default string_distance operator for the '' @
     '' JsonEditDistanceEvaluator requires installation of '' @
     ''the rapidfuzz package. '' @
     ''Please install it with '' @ [CHR 0x60] @ ''pip install rapidfuzz'' @ [CHR 0x60] @ ''.''"

text \<open>The default of \<^verbatim>\<open>canonicalize\<close>, the lambda of \<^verbatim>\<open>__init__\<close>.\<close>

definition default_canonicalize :: "('f \<Rightarrow> string) \<Rightarrow> 'f pyval \<Rightarrow> error + string" where
  "default_canonicalize fr x = dumps fr x"

text \<open>\<^verbatim>\<open>__init__(self, string_distance=None, canonicalize=None)\<close>.\<close>

definition init ::
  "('f, 'r) env \<Rightarrow> (string \<Rightarrow> string \<Rightarrow> error + 'r) option \<Rightarrow>
   ('f pyval \<Rightarrow> error + string) option \<Rightarrow> error + ('f, 'r) evaluator" where
  "init env string_distance_arg canonicalize_arg =
     (case (case string_distance_arg of
              Some d \<Rightarrow> Inr d
            | None \<Rightarrow>
                (case rapidfuzz env of
                   None \<Rightarrow> Inl (ImportError import_message)
                 | Some normalized_distance \<Rightarrow> Inr normalized_distance)) of
        Inl e \<Rightarrow> Inl e
      | Inr d \<Rightarrow>
          Inr \<lparr>string_distance = d,
               canonicalize = (case canonicalize_arg of
                                 Some c \<Rightarrow> c
                               | None \<Rightarrow> default_canonicalize (float_repr env))\<rparr>)"

definition requires_input :: "('f, 'r) evaluator \<Rightarrow> bool" where
  "requires_input self = False"

definition requires_reference :: "('f, 'r) evaluator \<Rightarrow> bool" where
  "requires_reference self = True"

definition evaluation_name :: "('f, 'r) evaluator \<Rightarrow> string" where
  "evaluation_name self = ''json_edit_distance''"

text \<open>\<^verbatim>\<open>_parse_json\<close>: a \<^verbatim>\<open>str\<close> goes to the extractor, anything else is returned as it is.\<close>

definition parse_json ::
  "('f, 'r) env \<Rightarrow> ('f, 'r) evaluator \<Rightarrow> 'f pyval \<Rightarrow> error + 'f pyval" where
  "parse_json env self node =
     (case node of
        PStr s \<Rightarrow> parse_json_markdown env s
      | _ \<Rightarrow> Inr node)"

text \<open>\<^verbatim>\<open>_distance\<close>.\<close>

definition distance :: "('f, 'r) evaluator \<Rightarrow> string \<Rightarrow> string \<Rightarrow> error + 'r" where
  "distance self a b = string_distance self a b"

text \<open>
  \<^verbatim>\<open>_evaluate_strings(self, prediction, input=None, reference=None)\<close>. The statements
  run in the order of the source, and the first exception ends the call. The result is
  the dict \<^verbatim>\<open>{"score": distance}\<close>, as the list of its items.
\<close>

definition evaluate_strings ::
  "('f, 'r) env \<Rightarrow> ('f, 'r) evaluator \<Rightarrow> 'f pyval \<Rightarrow> 'f pyval \<Rightarrow> 'f pyval \<Rightarrow>
   error + (string \<times> 'r) list" where
  "evaluate_strings env self prediction input reference =
     (case parse_json env self prediction of
        Inl e \<Rightarrow> Inl e
      | Inr p \<Rightarrow>
     (case canonicalize self p of
        Inl e \<Rightarrow> Inl e
      | Inr parsed \<Rightarrow>
     (case parse_json env self reference of
        Inl e \<Rightarrow> Inl e
      | Inr r \<Rightarrow>
     (case canonicalize self r of
        Inl e \<Rightarrow> Inl e
      | Inr label \<Rightarrow>
     (case distance self parsed label of
        Inl e \<Rightarrow> Inl e
      | Inr d \<Rightarrow> Inr [(''score'', d)])))))"

section \<open>JSON values and structural equality\<close>

text \<open>
  A valid JSON value holds no object that \<^verbatim>\<open>json.dumps\<close> cannot serialise, and the list
  of items of each dict, at every depth, has distinct keys (as every Python dict has).
\<close>

fun valid_json :: "'f pyval \<Rightarrow> bool" where
  "valid_json (PList xs) = (\<forall>x\<in>set xs. valid_json x)"
| "valid_json (PDict kvs) = (distinct (map fst kvs) \<and> (\<forall>(k, v)\<in>set kvs. valid_json v))"
| "valid_json (PObject n) = False"
| "valid_json v = True"

text \<open>
  Structural equality as the specification words it: the same type and the same elements,
  sequences equal element by element in order, mappings with equal key sets and equal
  values under each key, whatever the insertion order.
\<close>

fun struct_eq :: "'f pyval \<Rightarrow> 'f pyval \<Rightarrow> bool" where
  "struct_eq (PList xs) (PList ys) = list_all2 struct_eq xs ys"
| "struct_eq (PDict m1) (PDict m2) =
     (fst ` set m1 = fst ` set m2 \<and>
      (\<forall>(k, v)\<in>set m1. \<forall>(k', v')\<in>set m2. k = k' \<longrightarrow> struct_eq v v'))"
| "struct_eq a b = (a = b)"

section \<open>Lemmas on the default canonicalisation\<close>

lemma collect_all_Inr:
  "(\<forall>r\<in>set rs. \<exists>a. r = Inr a) \<Longrightarrow> \<exists>as. collect rs = Inr as"
proof (induction rs)
  case Nil
  then show ?case by simp
next
  case (Cons r rs)
  then obtain a where "r = Inr a" by auto
  moreover from Cons obtain as where "collect rs = Inr as" by auto
  ultimately show ?case by simp
qed

text \<open>The default canonicalisation never raises on a valid JSON value.\<close>

lemma dumps_total: "valid_json v \<Longrightarrow> \<exists>s. dumps fr v = Inr s"
proof (induction v)
  case (PList xs)
  have "\<forall>r\<in>set (map (dumps fr) xs). \<exists>a. r = Inr a"
    using PList by auto
  then obtain ss where "collect (map (dumps fr) xs) = Inr ss"
    using collect_all_Inr by blast
  then show ?case by simp
next
  case (PDict kvs)
  let ?item = "\<lambda>(k, v). case dumps fr v of
                           Inl e \<Rightarrow> Inl e
                         | Inr s \<Rightarrow> Inr (encode_basestring_ascii k @ '':'' @ s)"
  have "\<forall>r\<in>set (map ?item (sort_key fst kvs)). \<exists>a. r = Inr a"
  proof
    fix r
    assume "r \<in> set (map ?item (sort_key fst kvs))"
    then obtain k v where kv: "(k, v) \<in> set kvs" and r: "r = ?item (k, v)"
      by auto
    from kv PDict.prems have "valid_json v" by auto
    with kv PDict.IH [of "(k, v)" v] obtain s where "dumps fr v = Inr s" by auto
    with r show "\<exists>a. r = Inr a" by simp
  qed
  then obtain ss where "collect (map ?item (sort_key fst kvs)) = Inr ss"
    using collect_all_Inr by blast
  then show ?case by simp
qed simp_all

lemma default_canonicalize_total:
  "valid_json v \<Longrightarrow> \<exists>s. default_canonicalize fr v = Inr s"
  by (simp add: default_canonicalize_def dumps_total)

text \<open>Sorting by key forgets the insertion order.\<close>

lemma distinct_map_sort_key: "distinct (map f (sort_key f xs)) = distinct (map f xs)"
  by (induction xs) (simp_all add: distinct_insort_key)

lemma sorted_keys_unique:
  assumes "distinct (map fst m1)" and "distinct (map fst m2)"
    and "fst ` set m1 = fst ` set m2"
  shows "map fst (sort_key fst m1) = map fst (sort_key fst m2)"
proof (rule sorted_distinct_set_unique)
  show "sorted (map fst (sort_key fst m1))" by simp
  show "sorted (map fst (sort_key fst m2))" by simp
  show "distinct (map fst (sort_key fst m1))"
    using assms(1) by (simp add: distinct_map_sort_key)
  show "distinct (map fst (sort_key fst m2))"
    using assms(2) by (simp add: distinct_map_sort_key)
  show "set (map fst (sort_key fst m1)) = set (map fst (sort_key fst m2))"
    using assms(3) by simp
qed

lemma map_eq_by_keys:
  assumes keys: "map fst s1 = map fst s2"
    and vals: "\<And>k v v'. (k, v) \<in> set s1 \<Longrightarrow> (k, v') \<in> set s2 \<Longrightarrow> g v = g v'"
  shows "map (\<lambda>(k, v). h k (g v)) s1 = map (\<lambda>(k, v). h k (g v)) s2"
proof (rule nth_equalityI)
  from keys have len: "length s1 = length s2"
    using map_eq_imp_length_eq by blast
  then show "length (map (\<lambda>(k, v). h k (g v)) s1) = length (map (\<lambda>(k, v). h k (g v)) s2)"
    by simp
  fix i
  assume "i < length (map (\<lambda>(k, v). h k (g v)) s1)"
  then have i1: "i < length s1" by simp
  with len have i2: "i < length s2" by simp
  obtain k v where kv: "s1 ! i = (k, v)" by (cases "s1 ! i")
  obtain k' v' where kv': "s2 ! i = (k', v')" by (cases "s2 ! i")
  from keys i1 i2 have "fst (s1 ! i) = fst (s2 ! i)"
    by (metis nth_map)
  with kv kv' have kk: "k' = k" by simp
  from kv i1 have m1: "(k, v) \<in> set s1" by (metis nth_mem)
  from kv' kk i2 have m2: "(k, v') \<in> set s2" by (metis nth_mem)
  from vals [OF m1 m2] have "g v = g v'" .
  with kv kv' kk i1 i2
  show "map (\<lambda>(k, v). h k (g v)) s1 ! i = map (\<lambda>(k, v). h k (g v)) s2 ! i"
    by simp
qed

text \<open>Structurally equal values have the same canonical form, at every nesting depth.\<close>

lemma struct_eq_dumps:
  "valid_json a \<Longrightarrow> valid_json b \<Longrightarrow> struct_eq a b \<Longrightarrow> dumps fr a = dumps fr b"
proof (induction a b rule: struct_eq.induct)
  case (1 xs ys)
  have "map (dumps fr) xs = map (dumps fr) ys"
  proof (rule nth_equalityI)
    from "1.prems"(3) have len: "length xs = length ys"
      by (simp add: list_all2_lengthD)
    then show "length (map (dumps fr) xs) = length (map (dumps fr) ys)" by simp
    fix i
    assume "i < length (map (dumps fr) xs)"
    then have i1: "i < length xs" by simp
    with len have i2: "i < length ys" by simp
    from "1.prems"(3) i1 have se: "struct_eq (xs ! i) (ys ! i)"
      by (simp add: list_all2_conv_all_nth)
    from i1 have x: "xs ! i \<in> set xs" by simp
    from i2 have y: "ys ! i \<in> set ys" by simp
    from x "1.prems"(1) have vx: "valid_json (xs ! i)" by simp
    from y "1.prems"(2) have vy: "valid_json (ys ! i)" by simp
    from "1.IH" [OF x y vx vy se] i1 i2
    show "map (dumps fr) xs ! i = map (dumps fr) ys ! i" by simp
  qed
  then show ?case by simp
next
  case (2 m1 m2)
  let ?s1 = "sort_key fst m1" and ?s2 = "sort_key fst m2"
  from "2.prems" have d1: "distinct (map fst m1)" and d2: "distinct (map fst m2)"
    and ks: "fst ` set m1 = fst ` set m2"
    by simp_all
  have keys: "map fst ?s1 = map fst ?s2"
    using d1 d2 ks by (rule sorted_keys_unique)
  have vals: "dumps fr v = dumps fr v'"
    if "(k, v) \<in> set ?s1" and "(k, v') \<in> set ?s2" for k v v'
  proof -
    from that have m1: "(k, v) \<in> set m1" and m2: "(k, v') \<in> set m2" by simp_all
    from m1 "2.prems"(1) have vv: "valid_json v" by auto
    from m2 "2.prems"(2) have vv': "valid_json v'" by auto
    from m1 m2 "2.prems"(3) have se: "struct_eq v v'" by auto
    from "2.IH" [OF m1 refl m2 refl refl vv vv' se] show ?thesis .
  qed
  have "map (\<lambda>(k, v). case dumps fr v of Inl e \<Rightarrow> Inl e
              | Inr s \<Rightarrow> Inr (encode_basestring_ascii k @ '':'' @ s)) ?s1 =
        map (\<lambda>(k, v). case dumps fr v of Inl e \<Rightarrow> Inl e
              | Inr s \<Rightarrow> Inr (encode_basestring_ascii k @ '':'' @ s)) ?s2"
    using keys vals
    by (rule map_eq_by_keys [where g = "dumps fr" and
          h = "\<lambda>k r. case r of Inl e \<Rightarrow> Inl e
              | Inr s \<Rightarrow> Inr (encode_basestring_ascii k @ '':'' @ s)"])
  then show ?case by simp
qed simp_all

text \<open>
  Structural equality is reflexive on valid values, so two dicts that hold the same items,
  inserted in any order, are structurally equal.
\<close>

lemma struct_eq_refl: "valid_json v \<Longrightarrow> struct_eq v v"
proof (induction v)
  case (PList xs)
  then show ?case by (simp add: list_all2_same)
next
  case (PDict kvs)
  have "struct_eq v v'" if "(k, v) \<in> set kvs" and "(k, v') \<in> set kvs" for k v v'
  proof -
    from PDict.prems have "distinct (map fst kvs)" by simp
    from this that have "v = v'" by (rule eq_key_imp_eq_value)
    moreover from that(1) PDict.prems have "valid_json v" by auto
    ultimately show ?thesis using PDict.IH [of "(k, v)" v] that(1) by auto
  qed
  then show ?case by auto
qed simp_all

lemma same_items_struct_eq:
  assumes "valid_json (PDict m1)" and "set m1 = set m2"
  shows "struct_eq (PDict m1) (PDict m2)"
  using struct_eq_refl [OF assms(1)] assms(2) by simp

section \<open>Properties of the evaluator\<close>

text \<open>
  The docstring's example: \<^verbatim>\<open>{"a": 1, "b": 2}\<close>, with the keys inserted in either order,
  has the canonical form \<^verbatim>\<open>{"a":1,"b":2}\<close>.
\<close>

lemma dumps_docstring_example:
  "dumps fr (PDict [(''b'', PInt 2), (''a'', PInt 1)]) = Inr ''{\"a\":1,\"b\":2}'' \<and>
   dumps fr (PDict [(''a'', PInt 1), (''b'', PInt 2)]) = Inr ''{\"a\":1,\"b\":2}''"
  by (simp add: int_repr_def nat_repr.simps encode_basestring_ascii_def escape_char_def)

text \<open>
  C1: when the prediction resolves to \<open>p\<close> and canonicalises to \<open>A\<close>, and the reference
  resolves to \<open>r\<close> and canonicalises to \<open>B\<close>, the evaluation is the configured distance
  function applied to \<open>(A, B)\<close>, and what it returns is the one field \<^verbatim>\<open>score\<close> of the
  result.
\<close>

theorem evaluate_strings_steps:
  assumes "parse_json env self prediction = Inr p"
    and "canonicalize self p = Inr A"
    and "parse_json env self reference = Inr r"
    and "canonicalize self r = Inr B"
  shows "evaluate_strings env self prediction input reference =
           (case string_distance self A B of
              Inl e \<Rightarrow> Inl e
            | Inr d \<Rightarrow> Inr [(''score'', d)])"
  using assms by (simp add: evaluate_strings_def distance_def)

theorem evaluate_strings_steps_witness:
  "evaluate_strings
     \<lparr>rapidfuzz = None,
      parse_json_markdown = (\<lambda>s. if s = ''{\"a\": 1}'' then Inr (PDict [(''a'', PInt 1)])
                                 else Inl (ExtractorError s)),
      float_repr = (\<lambda>x::unit. ''0.0'')\<rparr>
     \<lparr>string_distance = (\<lambda>a b. Inr (if a = b then 0 else 1::int)),
      canonicalize = default_canonicalize (\<lambda>x::unit. ''0.0'')\<rparr>
     (PStr ''{\"a\": 1}'') PNone (PList [PBool True]) = Inr [(''score'', 1)]"
proof -
  let ?env = "\<lparr>rapidfuzz = None,
      parse_json_markdown = (\<lambda>s. if s = ''{\"a\": 1}'' then Inr (PDict [(''a'', PInt 1)])
                                 else Inl (ExtractorError s)),
      float_repr = (\<lambda>x::unit. ''0.0'')\<rparr> :: (unit, int) env"
  let ?self = "\<lparr>string_distance = (\<lambda>a b. Inr (if a = b then 0 else 1::int)),
      canonicalize = default_canonicalize (\<lambda>x::unit. ''0.0'')\<rparr>"
  have p: "parse_json ?env ?self (PStr ''{\"a\": 1}'') = Inr (PDict [(''a'', PInt 1)])"
    by (simp add: parse_json_def)
  have a: "canonicalize ?self (PDict [(''a'', PInt 1)]) = Inr ''{\"a\":1}''"
    by (simp add: default_canonicalize_def int_repr_def nat_repr.simps
        encode_basestring_ascii_def escape_char_def)
  have r: "parse_json ?env ?self (PList [PBool True]) = Inr (PList [PBool True])"
    by (simp add: parse_json_def)
  have b: "canonicalize ?self (PList [PBool True]) = Inr ''[true]''"
    by (simp add: default_canonicalize_def)
  from evaluate_strings_steps [OF p a r b, of PNone] show ?thesis by simp
qed

text \<open>
  C2: two mappings with the same keys and, under each key, the same value (nested mappings
  again compared whatever their insertion order) have the same default canonical form:
  the items are sorted by key at every nesting depth before they are rendered.
\<close>

theorem key_order_invariance:
  assumes "valid_json (PDict m1)" and "valid_json (PDict m2)"
    and "struct_eq (PDict m1) (PDict m2)"
  shows "default_canonicalize fr (PDict m1) = default_canonicalize fr (PDict m2)"
  using assms by (simp only: default_canonicalize_def struct_eq_dumps)

theorem key_order_invariance_witness:
  "default_canonicalize (\<lambda>x::unit. ''0.0'')
     (PDict [(''b'', PInt 2), (''a'', PDict [(''x'', PNone), (''y'', PList [])])]) =
   default_canonicalize (\<lambda>x::unit. ''0.0'')
     (PDict [(''a'', PDict [(''y'', PList []), (''x'', PNone)]), (''b'', PInt 2)])"
proof -
  have v1: "valid_json (PDict [(''b'', PInt 2),
              (''a'', PDict [(''x'', PNone), (''y'', PList [])])] :: unit pyval)"
    by simp
  have v2: "valid_json (PDict [(''a'', PDict [(''y'', PList []), (''x'', PNone)]),
              (''b'', PInt 2)] :: unit pyval)"
    by simp
  have se: "struct_eq
      (PDict [(''b'', PInt 2), (''a'', PDict [(''x'', PNone), (''y'', PList [])])] :: unit pyval)
      (PDict [(''a'', PDict [(''y'', PList []), (''x'', PNone)]), (''b'', PInt 2)])"
    by auto
  from key_order_invariance [OF v1 v2 se] show ?thesis .
qed

text \<open>
  C3: when the distance of every string to itself is 0, evaluating a valid JSON value
  against itself gives the score 0. The value is valid when it resolves to a valid JSON
  value; the canonicalisation has to return on valid JSON values, as the default one does
  (\<open>default_canonicalize_total\<close>).
\<close>

theorem identity_score:
  assumes "\<forall>s. string_distance self s s = Inr 0"
    and "\<forall>v. valid_json v \<longrightarrow> (\<exists>s. canonicalize self v = Inr s)"
    and "parse_json env self X = Inr v"
    and "valid_json v"
  shows "evaluate_strings env self X input X = Inr [(''score'', 0)]"
proof -
  from assms(2,4) obtain s where "canonicalize self v = Inr s" by blast
  with assms(1,3) show ?thesis
    by (simp add: evaluate_strings_def distance_def)
qed

theorem identity_score_witness:
  "evaluate_strings
     \<lparr>rapidfuzz = None,
      parse_json_markdown = (\<lambda>s. if s = ''{\"a\": 1}'' then Inr (PDict [(''a'', PInt 1)])
                                 else Inl (ExtractorError s)),
      float_repr = (\<lambda>x::unit. ''0.0'')\<rparr>
     \<lparr>string_distance = (\<lambda>a b. Inr (if a = b then 0 else 1::int)),
      canonicalize = default_canonicalize (\<lambda>x::unit. ''0.0'')\<rparr>
     (PStr ''{\"a\": 1}'') PNone (PStr ''{\"a\": 1}'') = Inr [(''score'', 0)]"
proof -
  let ?env = "\<lparr>rapidfuzz = None,
      parse_json_markdown = (\<lambda>s. if s = ''{\"a\": 1}'' then Inr (PDict [(''a'', PInt 1)])
                                 else Inl (ExtractorError s)),
      float_repr = (\<lambda>x::unit. ''0.0'')\<rparr> :: (unit, int) env"
  let ?self = "\<lparr>string_distance = (\<lambda>a b. Inr (if a = b then 0 else 1::int)),
      canonicalize = default_canonicalize (\<lambda>x::unit. ''0.0'')\<rparr>"
  have metric: "\<forall>s. string_distance ?self s s = Inr 0"
    by simp
  have total: "\<forall>v. valid_json v \<longrightarrow> (\<exists>s. canonicalize ?self v = Inr s)"
    by (simp add: default_canonicalize_total)
  have p: "parse_json ?env ?self (PStr ''{\"a\": 1}'') = Inr (PDict [(''a'', PInt 1)])"
    by (simp add: parse_json_def)
  have v: "valid_json (PDict [(''a'', PInt 1)] :: unit pyval)"
    by simp
  from identity_score [OF metric total p v, of PNone] show ?thesis .
qed

text \<open>
  C4: the resolver hands a string to the markdown extractor and returns what the
  extractor returns; any other value is returned unchanged, whatever the extractor is.
\<close>

theorem parse_json_delegates:
  "(node = PStr s \<longrightarrow> parse_json env self node = parse_json_markdown env s) \<and>
   ((\<forall>t. node \<noteq> PStr t) \<longrightarrow> parse_json env self node = Inr node)"
  by (cases node) (simp_all add: parse_json_def)

theorem parse_json_delegates_witness:
  "parse_json
     \<lparr>rapidfuzz = None, parse_json_markdown = (\<lambda>s. Inl (ExtractorError s)),
      float_repr = (\<lambda>x::unit. ''0.0'')\<rparr>
     \<lparr>string_distance = (\<lambda>a b. Inr (0::int)),
      canonicalize = default_canonicalize (\<lambda>x::unit. ''0.0'')\<rparr>
     (PStr ''not json'') = Inl (ExtractorError ''not json'') \<and>
   parse_json
     \<lparr>rapidfuzz = None, parse_json_markdown = (\<lambda>s. Inl (ExtractorError s)),
      float_repr = (\<lambda>x::unit. ''0.0'')\<rparr>
     \<lparr>string_distance = (\<lambda>a b. Inr (0::int)),
      canonicalize = default_canonicalize (\<lambda>x::unit. ''0.0'')\<rparr>
     (PInt 7) = Inr (PInt 7)"
  using parse_json_delegates [of "PStr ''not json''" "''not json''"
      "\<lparr>rapidfuzz = None, parse_json_markdown = (\<lambda>s. Inl (ExtractorError s)),
        float_repr = (\<lambda>x::unit. ''0.0'')\<rparr>"
      "\<lparr>string_distance = (\<lambda>a b. Inr (0::int)),
        canonicalize = default_canonicalize (\<lambda>x::unit. ''0.0'')\<rparr>"]
    parse_json_delegates [of "PInt 7" "''''"
      "\<lparr>rapidfuzz = None, parse_json_markdown = (\<lambda>s. Inl (ExtractorError s)),
        float_repr = (\<lambda>x::unit. ''0.0'')\<rparr>"
      "\<lparr>string_distance = (\<lambda>a b. Inr (0::int)),
        canonicalize = default_canonicalize (\<lambda>x::unit. ''0.0'')\<rparr>"]
  by simp

text \<open>
  C5: the scorer returns exactly what the configured distance function returns on the two
  canonical strings, and that value, unchanged, is the score of the evaluation, whatever
  its range.
\<close>

theorem distance_passes_through:
  "distance self a b = string_distance self a b \<and>
   (parse_json env self prediction = Inr p \<and> canonicalize self p = Inr a \<and>
    parse_json env self reference = Inr r \<and> canonicalize self r = Inr b \<and>
    string_distance self a b = Inr d \<longrightarrow>
    evaluate_strings env self prediction input reference = Inr [(''score'', d)])"
  by (simp add: evaluate_strings_def distance_def)

theorem distance_passes_through_witness:
  "distance
     \<lparr>string_distance = (\<lambda>a b. Inr (int (length a) + int (length b) - 50)),
      canonicalize = default_canonicalize (\<lambda>x::unit. ''0.0'')\<rparr> ''null'' ''[]'' =
     Inr (- 44) \<and>
   evaluate_strings
     \<lparr>rapidfuzz = None, parse_json_markdown = (\<lambda>s. Inl (ExtractorError s)),
      float_repr = (\<lambda>x::unit. ''0.0'')\<rparr>
     \<lparr>string_distance = (\<lambda>a b. Inr (int (length a) + int (length b) - 50)),
      canonicalize = default_canonicalize (\<lambda>x::unit. ''0.0'')\<rparr>
     PNone PNone (PList []) = Inr [(''score'', - 44)] \<and>
   \<not> (0 \<le> (- 44 :: int) \<and> (- 44 :: int) \<le> 1)"
proof -
  let ?env = "\<lparr>rapidfuzz = None, parse_json_markdown = (\<lambda>s. Inl (ExtractorError s)),
      float_repr = (\<lambda>x::unit. ''0.0'')\<rparr> :: (unit, int) env"
  let ?self = "\<lparr>string_distance = (\<lambda>a b. Inr (int (length a) + int (length b) - 50)),
      canonicalize = default_canonicalize (\<lambda>x::unit. ''0.0'')\<rparr>"
  have h: "parse_json ?env ?self PNone = Inr PNone \<and> canonicalize ?self PNone = Inr ''null'' \<and>
      parse_json ?env ?self (PList []) = Inr (PList []) \<and>
      canonicalize ?self (PList []) = Inr ''[]'' \<and>
      string_distance ?self ''null'' ''[]'' = Inr (- 44)"
    by (simp add: parse_json_def default_canonicalize_def)
  from distance_passes_through [of ?self "''null''" "''[]''" ?env PNone PNone "PList []"
      "PList []" "- 44" PNone] h
  show ?thesis by simp
qed

text \<open>
  C6: construction fails exactly when no distance function is passed and \<^verbatim>\<open>rapidfuzz\<close>
  cannot be imported; the error is an \<^verbatim>\<open>ImportError\<close> whose message names
  \<^verbatim>\<open>rapidfuzz\<close> and the remedy \<^verbatim>\<open>pip install rapidfuzz\<close>. With a distance function
  passed, construction succeeds with that function, and its outcome does not depend on
  whether \<^verbatim>\<open>rapidfuzz\<close> is there.
\<close>

theorem init_import_error:
  "(isl (init env sd cn) \<longleftrightarrow> sd = None \<and> rapidfuzz env = None) \<and>
   (sd = None \<and> rapidfuzz env = None \<longrightarrow> init env sd cn = Inl (ImportError import_message)) \<and>
   sublist ''rapidfuzz'' import_message \<and>
   sublist ''pip install rapidfuzz'' import_message \<and>
   (\<forall>d. sd = Some d \<longrightarrow>
      (\<exists>self. init env sd cn = Inr self \<and> string_distance self = d) \<and>
      (\<forall>rf. init (env\<lparr>rapidfuzz := rf\<rparr>) sd cn = init env sd cn))"
proof -
  have a: "isl (init env sd cn) \<longleftrightarrow> sd = None \<and> rapidfuzz env = None"
    by (simp add: init_def split: option.splits)
  have b: "sd = None \<and> rapidfuzz env = None \<longrightarrow> init env sd cn = Inl (ImportError import_message)"
    by (simp add: init_def)
  have "import_message =
      (''The default string_distance operator for the '' @
       '' JsonEditDistanceEvaluator requires installation of '' @ ''the '') @
      ''rapidfuzz'' @
      ('' package. '' @ ''Please install it with '' @ [CHR 0x60] @
       ''pip install rapidfuzz'' @ [CHR 0x60] @ ''.'')"
    by (simp add: import_message_def)
  then have c: "sublist ''rapidfuzz'' import_message"
    unfolding sublist_def by blast
  have "import_message =
      (''The default string_distance operator for the '' @
       '' JsonEditDistanceEvaluator requires installation of '' @
       ''the rapidfuzz package. '' @ ''Please install it with '' @ [CHR 0x60]) @
      ''pip install rapidfuzz'' @ ([CHR 0x60] @ ''.'')"
    by (simp add: import_message_def)
  then have d: "sublist ''pip install rapidfuzz'' import_message"
    unfolding sublist_def by blast
  have e: "\<forall>d. sd = Some d \<longrightarrow>
      (\<exists>self. init env sd cn = Inr self \<and> string_distance self = d) \<and>
      (\<forall>rf. init (env\<lparr>rapidfuzz := rf\<rparr>) sd cn = init env sd cn)"
    by (cases cn) (simp_all add: init_def)
  from a b c d e show ?thesis by blast
qed

theorem init_import_error_witness:
  "init
     \<lparr>rapidfuzz = None, parse_json_markdown = (\<lambda>s. Inl (ExtractorError s)),
      float_repr = (\<lambda>x::unit. ''0.0'')\<rparr>
     (None :: (string \<Rightarrow> string \<Rightarrow> error + int) option) None =
     Inl (ImportError import_message) \<and>
   \<not> isl (init
     \<lparr>rapidfuzz = None, parse_json_markdown = (\<lambda>s. Inl (ExtractorError s)),
      float_repr = (\<lambda>x::unit. ''0.0'')\<rparr>
     (Some (\<lambda>a b. Inr (0::int))) None) \<and>
   \<not> isl (init
     \<lparr>rapidfuzz = Some (\<lambda>a b. Inr (1::int)),
      parse_json_markdown = (\<lambda>s. Inl (ExtractorError s)),
      float_repr = (\<lambda>x::unit. ''0.0'')\<rparr>
     None None)"
  using init_import_error [of
      "\<lparr>rapidfuzz = None, parse_json_markdown = (\<lambda>s. Inl (ExtractorError s)),
        float_repr = (\<lambda>x::unit. ''0.0'')\<rparr>"
      "None :: (string \<Rightarrow> string \<Rightarrow> error + int) option" None]
    init_import_error [of
      "\<lparr>rapidfuzz = None, parse_json_markdown = (\<lambda>s. Inl (ExtractorError s)),
        float_repr = (\<lambda>x::unit. ''0.0'')\<rparr>"
      "Some (\<lambda>a b. Inr (0::int))" None]
    init_import_error [of
      "\<lparr>rapidfuzz = Some (\<lambda>a b. Inr (1::int)),
        parse_json_markdown = (\<lambda>s. Inl (ExtractorError s)),
        float_repr = (\<lambda>x::unit. ''0.0'')\<rparr>"
      None None]
  by simp

text \<open>
  C7: an error raised while the prediction is resolved, or while the reference is resolved
  after the prediction has been canonicalised, is the outcome of the evaluation, for any
  configured distance function; and whenever either side cannot be resolved the evaluation
  returns no score.
\<close>

theorem parse_error_propagates:
  "(parse_json env self prediction = Inl e \<longrightarrow>
      evaluate_strings env self prediction input reference = Inl e) \<and>
   (parse_json env self prediction = Inr p \<and> canonicalize self p = Inr A \<and>
    parse_json env self reference = Inl e \<longrightarrow>
      evaluate_strings env self prediction input reference = Inl e) \<and>
   (isl (parse_json env self prediction) \<or> isl (parse_json env self reference) \<longrightarrow>
      isl (evaluate_strings env self prediction input reference))"
  by (auto simp add: evaluate_strings_def isl_def split: sum.splits)

theorem parse_error_propagates_witness:
  "evaluate_strings
     \<lparr>rapidfuzz = None, parse_json_markdown = (\<lambda>s. Inl (ExtractorError s)),
      float_repr = (\<lambda>x::unit. ''0.0'')\<rparr>
     \<lparr>string_distance = (\<lambda>a b. Inr (0::int)),
      canonicalize = default_canonicalize (\<lambda>x::unit. ''0.0'')\<rparr>
     (PStr ''not json at all'') PNone (PDict [(''a'', PInt 1)]) =
     Inl (ExtractorError ''not json at all'') \<and>
   evaluate_strings
     \<lparr>rapidfuzz = None, parse_json_markdown = (\<lambda>s. Inl (ExtractorError s)),
      float_repr = (\<lambda>x::unit. ''0.0'')\<rparr>
     \<lparr>string_distance = (\<lambda>a b. Inr (0::int)),
      canonicalize = default_canonicalize (\<lambda>x::unit. ''0.0'')\<rparr>
     PNone PNone (PStr ''garbage'') = Inl (ExtractorError ''garbage'')"
proof -
  let ?env = "\<lparr>rapidfuzz = None, parse_json_markdown = (\<lambda>s. Inl (ExtractorError s)),
      float_repr = (\<lambda>x::unit. ''0.0'')\<rparr> :: (unit, int) env"
  let ?self = "\<lparr>string_distance = (\<lambda>a b. Inr (0::int)),
      canonicalize = default_canonicalize (\<lambda>x::unit. ''0.0'')\<rparr>"
  have h1: "parse_json ?env ?self (PStr ''not json at all'') =
      Inl (ExtractorError ''not json at all'')"
    by (simp add: parse_json_def)
  have h2: "parse_json ?env ?self PNone = Inr PNone \<and> canonicalize ?self PNone = Inr ''null'' \<and>
      parse_json ?env ?self (PStr ''garbage'') = Inl (ExtractorError ''garbage'')"
    by (simp add: parse_json_def default_canonicalize_def)
  from parse_error_propagates [of ?env ?self "PStr ''not json at all''"
      "ExtractorError ''not json at all''" PNone "PDict [(''a'', PInt 1)]" PNone "''''"] h1
  have a: "evaluate_strings ?env ?self (PStr ''not json at all'') PNone (PDict [(''a'', PInt 1)]) =
      Inl (ExtractorError ''not json at all'')"
    by blast
  from parse_error_propagates [of ?env ?self PNone "ExtractorError ''garbage''" PNone
      "PStr ''garbage''" PNone "''null''"] h2
  have b: "evaluate_strings ?env ?self PNone PNone (PStr ''garbage'') =
      Inl (ExtractorError ''garbage'')"
    by blast
  from a b show ?thesis by simp
qed

text \<open>
  C8: the evaluator declares that it needs no input, that it needs a reference, and the
  name \<^verbatim>\<open>json_edit_distance\<close>.
\<close>

theorem interop_constants:
  "requires_input self = False \<and> requires_reference self = True \<and>
   evaluation_name self = ''json_edit_distance''"
  by (simp add: requires_input_def requires_reference_def evaluation_name_def)

text \<open>
  C9: two evaluations that differ only in the \<^verbatim>\<open>input\<close> argument have the same outcome.
\<close>

theorem input_is_unused:
  "evaluate_strings env self prediction input1 reference =
   evaluate_strings env self prediction input2 reference"
  by (simp add: evaluate_strings_def)

text \<open>
  C10: with the reference left out (\<^verbatim>\<open>None\<close>) the resolver returns \<^verbatim>\<open>None\<close>, the default
  canonicalisation renders it as \<^verbatim>\<open>null\<close>, and the prediction is scored against
  \<^verbatim>\<open>null\<close>: the evaluation does not check the flag \<^verbatim>\<open>requires_reference\<close>, which is
  \<open>True\<close> all the same.
\<close>

theorem missing_reference:
  "parse_json env self PNone = Inr PNone \<and>
   default_canonicalize fr PNone = Inr ''null'' \<and>
   requires_reference self = True \<and>
   (canonicalize self = default_canonicalize fr \<and>
    parse_json env self prediction = Inr p \<and> canonicalize self p = Inr A \<longrightarrow>
    evaluate_strings env self prediction input PNone =
      (case string_distance self A ''null'' of
         Inl e \<Rightarrow> Inl e
       | Inr d \<Rightarrow> Inr [(''score'', d)]))"
proof -
  have a: "parse_json env self PNone = Inr PNone"
    by (simp add: parse_json_def)
  have b: "default_canonicalize fr PNone = Inr ''null''"
    by (simp add: default_canonicalize_def)
  have c: "requires_reference self = True"
    by (simp add: requires_reference_def)
  have d: "evaluate_strings env self prediction input PNone =
      (case string_distance self A ''null'' of
         Inl e \<Rightarrow> Inl e
       | Inr d \<Rightarrow> Inr [(''score'', d)])"
    if "canonicalize self = default_canonicalize fr"
      and "parse_json env self prediction = Inr p" and "canonicalize self p = Inr A"
  proof -
    from that(1) b have "canonicalize self PNone = Inr ''null''" by simp
    with that(2,3) a show ?thesis
      by (simp add: evaluate_strings_def distance_def)
  qed
  from a b c d show ?thesis by blast
qed

theorem missing_reference_witness:
  "evaluate_strings
     \<lparr>rapidfuzz = None, parse_json_markdown = (\<lambda>s. Inl (ExtractorError s)),
      float_repr = (\<lambda>x::unit. ''0.0'')\<rparr>
     \<lparr>string_distance = (\<lambda>a b. Inr (if a = b then 0 else 1::int)),
      canonicalize = default_canonicalize (\<lambda>x::unit. ''0.0'')\<rparr>
     (PList [PBool False]) PNone PNone = Inr [(''score'', 1)]"
proof -
  let ?env = "\<lparr>rapidfuzz = None, parse_json_markdown = (\<lambda>s. Inl (ExtractorError s)),
      float_repr = (\<lambda>x::unit. ''0.0'')\<rparr> :: (unit, int) env"
  let ?self = "\<lparr>string_distance = (\<lambda>a b. Inr (if a = b then 0 else 1::int)),
      canonicalize = default_canonicalize (\<lambda>x::unit. ''0.0'')\<rparr>"
  have h: "canonicalize ?self = default_canonicalize (\<lambda>x::unit. ''0.0'') \<and>
      parse_json ?env ?self (PList [PBool False]) = Inr (PList [PBool False]) \<and>
      canonicalize ?self (PList [PBool False]) = Inr ''[false]''"
    by (simp add: parse_json_def default_canonicalize_def)
  from missing_reference [of ?env ?self "\<lambda>x::unit. ''0.0''" "PList [PBool False]"
      "PList [PBool False]" "''[false]''" PNone] h
  show ?thesis by simp
qed

end
